theory Spec2Isabelle
  imports Complex_Main
begin

section \<open>Python values, strings and exceptions\<close>

text \<open>
  The module \<^verbatim>\<open>altair/utils/mimebundle.py\<close> is a decision tree over a handful of
  string arguments; everything it renders is delegated to collaborators. The embedding
  keeps the arguments at the types the docstrings give them: \<open>format\<close> is a string,
  \<open>mode\<close> and the three version arguments are a string or \<open>None\<close> (their default),
  the chart specification and every rendered payload are opaque Python objects, and
  \<open>**kwargs\<close> is a dictionary from keyword names to Python objects.

  A Python \<open>str\<close> is modelled as a \<open>string\<close> whose characters are the code points
  below 256.
\<close>

datatype 'v pyval =
    PyNone
  | PyStr string
  | PyFloat real
  | PyObj 'v

text \<open>
  Exceptions are values: a call returns \<open>Inl e\<close> where the Python raises \<open>e\<close>.
  \<open>ValueError\<close> is the exception the specification calls InvalidArgument.
\<close>

datatype error =
    ValueError string
  | AssertionError
  | IndexError string
  | AttributeError string
  | ImportError string
  | OtherError string

fun is_ValueError :: "error + 'a \<Rightarrow> bool" where
  "is_ValueError (Inl (ValueError m)) = True"
| "is_ValueError r = False"

subsection \<open>\<open>str.lower\<close>, \<open>str.replace\<close>, \<open>str.split\<close>, \<open>str.join\<close>\<close>

definition lower_char :: "char \<Rightarrow> char" where
  "lower_char c =
     (let n = (of_char c :: nat)
      in if (65 \<le> n \<and> n \<le> 90) \<or> (192 \<le> n \<and> n \<le> 222 \<and> n \<noteq> 215)
         then char_of (n + 32) else c)"

definition lower :: "string \<Rightarrow> string" where
  "lower s = map lower_char s"

text \<open>\<open>s.replace(c, "")\<close> for a one-character \<open>c\<close> deletes every occurrence of it.\<close>

definition remove_char :: "char \<Rightarrow> string \<Rightarrow> string" where
  "remove_char c s = filter (\<lambda>d. d \<noteq> c) s"

text \<open>\<open>s.split(c)\<close> for a one-character separator: never an empty list.\<close>

fun split_on :: "char \<Rightarrow> string \<Rightarrow> string list" where
  "split_on c [] = [] # []"
| "split_on c (d # s) =
     (if d = c then [] # split_on c s
      else (case split_on c s of
              [] \<Rightarrow> [d] # []
            | w # ws \<Rightarrow> (d # w) # ws))"

fun join :: "string \<Rightarrow> string list \<Rightarrow> string" where
  "join sep [] = []"
| "join sep [w] = w"
| "join sep (w # ws) = w @ sep @ join sep ws"

subsection \<open>\<open>repr\<close> of a string, as \<open>{fmt!r}\<close> formats it\<close>

definition hex_digit :: "nat \<Rightarrow> char" where
  "hex_digit n = ''0123456789abcdef'' ! (n mod 16)"

definition printable :: "char \<Rightarrow> bool" where
  "printable c =
     (let n = (of_char c :: nat)
      in \<not> (n < 32 \<or> (127 \<le> n \<and> n \<le> 160) \<or> n = 173))"

definition repr_char :: "char \<Rightarrow> char \<Rightarrow> string" where
  "repr_char quote c =
     (if c = quote \<or> c = CHR 0x5C then [CHR 0x5C, c]
      else if c = CHR 0x09 then [CHR 0x5C, CHR ''t'']
      else if c = CHR 0x0A then [CHR 0x5C, CHR ''n'']
      else if c = CHR 0x0D then [CHR 0x5C, CHR ''r'']
      else if printable c then [c]
      else [CHR 0x5C, CHR ''x'',
            hex_digit ((of_char c :: nat) div 16), hex_digit (of_char c :: nat)])"

definition repr :: "string \<Rightarrow> string" where
  "repr s =
     (let quote = (if CHR 0x27 \<in> set s \<and> CHR 0x22 \<notin> set s then CHR 0x22 else CHR 0x27)
      in quote # concat (map (repr_char quote) s) @ [quote])"

section \<open>Collaborators\<close>

text \<open>
  A mimebundle is a Python dictionary from MIME type to payload.
\<close>

type_synonym 'v mimebundle = "string \<rightharpoonup> 'v pyval"

type_synonym 'v kwargs = "string \<rightharpoonup> 'v pyval"

text \<open>
  The data-transformer registry \<open>data_transformers\<close> is an object of
  \<^verbatim>\<open>altair.vegalite.v5.data\<close>, which is not part of the sources at hand. Its state is
  the name of the active transformer and whether the row limit applies.
\<close>

record registry =
  active :: string
  max_rows :: bool

text \<open>
  Every collaborator is a black box that runs in the current state of the registry, may
  change it, and returns a value or raises.
\<close>

type_synonym 'a call = "registry \<Rightarrow> (error + 'a) \<times> registry"

record 'v vl_convert_module =
  vegalite_to_vega :: "'v pyval \<Rightarrow> string \<Rightarrow> 'v pyval call"
  vegalite_to_svg :: "'v pyval \<Rightarrow> string \<Rightarrow> 'v pyval call"
  vegalite_to_png :: "'v pyval \<Rightarrow> string \<Rightarrow> 'v pyval \<Rightarrow> 'v pyval call"

record 'v altair_saver_module =
  render :: "'v pyval \<Rightarrow> string \<Rightarrow> string option \<Rightarrow> 'v kwargs \<Rightarrow> 'v mimebundle call"

text \<open>
  The environment of a call: the two optional packages (\<open>None\<close> when the import raises
  \<open>ImportError\<close>), the HTML generator \<open>spec_to_html\<close> of \<^verbatim>\<open>altair/utils/html.py\<close> and
  the constant \<open>SCHEMA_VERSION\<close> of \<^verbatim>\<open>altair/vegalite\<close>.
\<close>

record 'v env =
  vl_convert :: "'v vl_convert_module option"
  altair_saver :: "'v altair_saver_module option"
  spec_to_html :: "'v pyval \<Rightarrow> string option \<Rightarrow> string option \<Rightarrow> string option
                     \<Rightarrow> string option \<Rightarrow> 'v kwargs \<Rightarrow> 'v pyval call"
  SCHEMA_VERSION :: string

subsection \<open>What \<open>altair_saver.render\<close> returns\<close>

text \<open>
  The data model of the specification: a mimebundle is a mapping from exactly one
  MIME-type string to one payload.
\<close>

definition one_entry :: "'v mimebundle \<Rightarrow> bool" where
  "one_entry b = (card (dom b) = 1)"

text \<open>
  Modelled from the spec: the result of \<open>altair_saver.render\<close>, a package whose code is
  missing. The specification gives the saver the interface \<open>render(spec, format, mode,
  **options)\<close> with a mimebundle as result, called here with one format string: whenever
  \<open>render\<close> returns, what it returns has exactly one entry.
\<close>

definition render_returns_mimebundle :: "'v altair_saver_module \<Rightarrow> bool" where
  "render_returns_mimebundle saver =
     (\<forall>spec format mode kwargs r b r'.
        render saver spec format mode kwargs r = (Inr b, r') \<longrightarrow> one_entry b)"

subsection \<open>The scoped override of the data transformer\<close>

text \<open>
  Modelled from the spec: the context managers \<open>data_transformers.enable\<close> and
  \<open>data_transformers.disable_max_rows\<close>, whose code is missing. The specification says
  that the first makes the named transformer the active one, that the second disables
  row limiting, and that each restores the prior state of the registry when its block is
  left, also by an exception.
\<close>

definition enable :: "string \<Rightarrow> registry \<Rightarrow> registry" where
  "enable name r = r\<lparr>active := name\<rparr>"

definition disable_max_rows :: "registry \<Rightarrow> registry" where
  "disable_max_rows r = r\<lparr>max_rows := False\<rparr>"

text \<open>
  Modelled from the spec: the exit of these context managers, whose code is missing. In
  \<open>with cm: body\<close> the state at entry is saved, the manager's effect applied and the body
  run; whatever the body returns or raises, the saved state is put back.
\<close>

definition with_scope ::
  "(registry \<Rightarrow> registry) \<Rightarrow> (registry \<Rightarrow> 'a \<times> registry) \<Rightarrow> registry \<Rightarrow> 'a \<times> registry" where
  "with_scope enter body r =
     (let saved = r;
          (x, r') = body (enter r)
      in (x, saved))"

section \<open>The module\<close>

subsection \<open>\<open>_validate_normalize_engine\<close>\<close>

definition normalize_engine :: "string \<Rightarrow> string" where
  "normalize_engine engine = remove_char CHR ''_'' (remove_char CHR ''-'' (lower engine))"

text \<open>
  The engine is whatever the caller put under the keyword \<open>engine\<close>. \<open>engine.lower()\<close>
  exists for a string only: a number or another object raises \<open>AttributeError\<close>.
\<close>

definition normalized_engine_of :: "'v pyval \<Rightarrow> error + string option" where
  "normalized_engine_of engine =
     (case engine of
        PyNone \<Rightarrow> Inr None
      | PyStr s \<Rightarrow> Inr (Some (normalize_engine s))
      | PyFloat x \<Rightarrow> Inl (AttributeError ''lower'')
      | PyObj x \<Rightarrow> Inl (AttributeError ''lower''))"

definition repr_engine :: "'v pyval \<Rightarrow> string" where
  "repr_engine engine = (case engine of PyStr s \<Rightarrow> repr s | _ \<Rightarrow> ''None'')"

definition validate_normalize_engine :: "'v env \<Rightarrow> 'v pyval \<Rightarrow> string \<Rightarrow> error + string" where
  "validate_normalize_engine env engine format =
     (case normalized_engine_of engine of
        Inl e \<Rightarrow> Inl e
      | Inr normalized_engine \<Rightarrow>
          if normalized_engine = Some ''vlconvert'' then
            if vl_convert env = None then
              Inl (ValueError
                ''The 'vl-convert' conversion engine requires the vl-convert-python package'')
            else if format = ''pdf'' then
              Inl (ValueError
                (''The 'vl-convert' conversion engine does not support the '' @ repr format
                 @ '' format.'' @ [CHR 0x0A] @ ''Use the 'altair_saver' engine instead''))
            else Inr ''vlconvert''
          else if normalized_engine = Some ''altairsaver'' then
            if altair_saver env = None then
              Inl (ValueError
                ''The 'altair_saver' conversion engine requires the altair_saver package'')
            else Inr ''altairsaver''
          else if normalized_engine = None then
            if vl_convert env \<noteq> None \<and> format \<noteq> ''pdf'' then Inr ''vlconvert''
            else if altair_saver env \<noteq> None then Inr ''altairsaver''
            else if format = ''pdf'' then
              Inl (ValueError
                (''Saving charts in '' @ repr format
                 @ '' format requires the altair_saver package: ''
                 @ ''see http://github.com/altair-viz/altair_saver/''))
            else
              Inl (ValueError
                (''Saving charts in '' @ repr format
                 @ '' format requires the vl-convert-python or altair_saver package: ''
                 @ ''see http://github.com/altair-viz/altair_saver/''))
          else
            Inl (ValueError
              (''Invalid conversion engine '' @ repr_engine engine
               @ ''. Expected one of ('vl-convert', 'altair_saver')'')))"

subsection \<open>\<open>_spec_to_mimebundle_with_engine\<close>\<close>

definition wrap :: "string \<Rightarrow> (error + 'v pyval) \<times> registry \<Rightarrow> (error + 'v mimebundle) \<times> registry" where
  "wrap mime res =
     (case res of
        (Inl e, r) \<Rightarrow> (Inl e, r)
      | (Inr payload, r) \<Rightarrow> (Inr [mime \<mapsto> payload], r))"

definition vl_version_of :: "string \<Rightarrow> string" where
  "vl_version_of schema_version = join ''_'' (take 2 (split_on CHR ''.'' schema_version))"

definition vlconvert_dispatch ::
  "'v vl_convert_module \<Rightarrow> string \<Rightarrow> 'v pyval \<Rightarrow> string \<Rightarrow> 'v kwargs \<Rightarrow> 'v mimebundle call" where
  "vlconvert_dispatch vlc vl_version spec format kwargs =
     (if format = ''vega'' then
        wrap ''application/vnd.vega.v5+json'' \<circ> vegalite_to_vega vlc spec vl_version
      else if format = ''svg'' then
        wrap ''image/svg+xml'' \<circ> vegalite_to_svg vlc spec vl_version
      else if format = ''png'' then
        wrap ''image/png'' \<circ>
          vegalite_to_png vlc spec vl_version
            (case kwargs ''scale_factor'' of None \<Rightarrow> PyFloat 1 | Some scale \<Rightarrow> scale)
      else
        (\<lambda>r. (Inl (ValueError (''Unexpected format '' @ repr format)), r)))"

definition spec_to_mimebundle_with_engine ::
  "'v env \<Rightarrow> 'v pyval \<Rightarrow> string \<Rightarrow> string option \<Rightarrow> 'v kwargs \<Rightarrow> 'v mimebundle call" where
  "spec_to_mimebundle_with_engine env spec format mode kwargs r =
     (let engine = (case kwargs ''engine'' of None \<Rightarrow> PyNone | Some e \<Rightarrow> e);
          kwargs' = kwargs(''engine'' := None)
      in case validate_normalize_engine env engine format of
           Inl e \<Rightarrow> (Inl e, r)
         | Inr normalized_engine \<Rightarrow>
             if normalized_engine = ''vlconvert'' then
               (case vl_convert env of
                  None \<Rightarrow> (Inl (ImportError ''vl_convert''), r)
                | Some vlc \<Rightarrow>
                    with_scope (enable ''default'')
                      (with_scope disable_max_rows
                         (vlconvert_dispatch vlc (vl_version_of (SCHEMA_VERSION env))
                            spec format kwargs')) r)
             else if normalized_engine = ''altairsaver'' then
               (case altair_saver env of
                  None \<Rightarrow> (Inl (ImportError ''altair_saver''), r)
                | Some saver \<Rightarrow> render saver spec format mode kwargs' r)
             else
               (Inl (ValueError
                  (''Unexpected normalized_engine '' @ repr normalized_engine)), r))"

subsection \<open>\<open>spec_to_mimebundle\<close>\<close>

text \<open>
  \<open>vega_version[0]\<close> raises \<open>IndexError\<close> on the empty string.
\<close>

definition first_char :: "string \<Rightarrow> error + string" where
  "first_char s = (case s of [] \<Rightarrow> Inl (IndexError ''string index out of range'') | c # _ \<Rightarrow> Inr [c])"

definition spec_to_mimebundle ::
  "'v env \<Rightarrow> 'v pyval \<Rightarrow> string \<Rightarrow> string option \<Rightarrow> string option \<Rightarrow> string option
     \<Rightarrow> string option \<Rightarrow> 'v kwargs \<Rightarrow> 'v mimebundle call" where
  "spec_to_mimebundle env spec format mode vega_version vegaembed_version vegalite_version
       kwargs r =
     (if mode \<noteq> Some ''vega'' \<and> mode \<noteq> Some ''vega-lite'' then
        (Inl (ValueError (''mode must be either 'vega' or 'vega-lite'' @ [CHR 0x27])), r)
      else if mode = Some ''vega'' \<and> format = ''vega'' then
        (case vega_version of
           None \<Rightarrow> (Inl (ValueError ''Must specify vega_version''), r)
         | Some v \<Rightarrow>
             (case first_char v of
                Inl e \<Rightarrow> (Inl e, r)
              | Inr major \<Rightarrow>
                  (Inr [''application/vnd.vega.v'' @ major @ ''+json'' \<mapsto> spec], r)))
      else if format \<in> set [''png'', ''svg'', ''pdf'', ''vega''] then
        spec_to_mimebundle_with_engine env spec format mode kwargs r
      else if format = ''html'' then
        wrap ''text/html''
          (spec_to_html env spec mode vega_version vegaembed_version vegalite_version kwargs r)
      else if format = ''vega-lite'' then
        if mode \<noteq> Some ''vega-lite'' then (Inl AssertionError, r)
        else if mode = Some ''vega'' then
          (Inl (ValueError ''Cannot convert a vega spec to vegalite''), r)
        else
          (case vegalite_version of
             None \<Rightarrow> (Inl (ValueError ''Must specify vegalite_version''), r)
           | Some v \<Rightarrow>
               (case first_char v of
                  Inl e \<Rightarrow> (Inl e, r)
                | Inr major \<Rightarrow>
                    (Inr [''application/vnd.vegalite.v'' @ major @ ''+json'' \<mapsto> spec], r)))
      else if format = ''json'' then
        (Inr [''application/json'' \<mapsto> spec], r)
      else
        (Inl (ValueError
           (''format must be one of ''
            @ ''['html', 'json', 'png', 'svg', 'pdf', 'vega', 'vega-lite']'')), r))"

section \<open>Example environments\<close>

text \<open>
  Concrete collaborators on which the theorems below are evaluated. The converter of
  \<open>example_vl_convert\<close> changes the registry while it runs, and its SVG conversion raises;
  \<open>example_altair_saver\<close> returns the spec itself as the PDF payload.
\<close>

definition example_registry :: registry where
  "example_registry = \<lparr>active = ''json'', max_rows = True\<rparr>"

definition example_spec :: "unit pyval" where
  "example_spec = PyObj ()"

definition example_vl_convert :: "unit vl_convert_module" where
  "example_vl_convert =
     \<lparr>vegalite_to_vega = (\<lambda>spec v r. (Inr (PyStr (''vega '' @ v @ '' '' @ active r)), r\<lparr>active := ''csv''\<rparr>)),
      vegalite_to_svg = (\<lambda>spec v r. (Inl (OtherError ''conversion failed''), r\<lparr>active := ''csv''\<rparr>)),
      vegalite_to_png = (\<lambda>spec v scale r. (Inr scale, r))\<rparr>"

definition example_altair_saver :: "unit altair_saver_module" where
  "example_altair_saver =
     \<lparr>render = (\<lambda>spec format mode kwargs r. (Inr [''application/pdf'' \<mapsto> spec], r))\<rparr>"

definition example_html ::
  "unit pyval \<Rightarrow> string option \<Rightarrow> string option \<Rightarrow> string option \<Rightarrow> string option
     \<Rightarrow> unit kwargs \<Rightarrow> unit pyval call" where
  "example_html spec mode vega_version vegaembed_version vegalite_version kwargs r =
     (Inr (PyStr ''<html></html>''), r)"

definition env_no_engine :: "unit env" where
  "env_no_engine =
     \<lparr>vl_convert = None, altair_saver = None, spec_to_html = example_html,
      SCHEMA_VERSION = ''v5.2.0''\<rparr>"

definition env_vl_convert :: "unit env" where
  "env_vl_convert =
     \<lparr>vl_convert = Some example_vl_convert, altair_saver = None, spec_to_html = example_html,
      SCHEMA_VERSION = ''v5.2.0''\<rparr>"

definition env_altair_saver :: "unit env" where
  "env_altair_saver =
     \<lparr>vl_convert = None, altair_saver = Some example_altair_saver,
      spec_to_html = example_html, SCHEMA_VERSION = ''v5.2.0''\<rparr>"

section \<open>Auxiliary facts\<close>

lemma normalize_engine_VL_Convert: "normalize_engine ''VL_Convert'' = ''vlconvert''"
  by (simp add: normalize_engine_def lower_def lower_char_def char_of_def remove_char_def bit_0)

lemma normalize_engine_vl_convert: "normalize_engine ''vl-convert'' = ''vlconvert''"
  by (simp add: normalize_engine_def lower_def lower_char_def char_of_def remove_char_def bit_0)

lemma normalize_engine_X: "normalize_engine ''X'' = ''x''"
  by (simp add: normalize_engine_def lower_def lower_char_def char_of_def remove_char_def bit_0)

lemma normalize_engine_x: "normalize_engine ''x'' = ''x''"
  by (simp add: normalize_engine_def lower_def lower_char_def char_of_def remove_char_def bit_0)

lemma repr_pdf: "repr ''pdf'' = [CHR 0x27] @ ''pdf'' @ [CHR 0x27]"
  by (simp add: repr_def repr_char_def printable_def Let_def)

lemma vl_version_example: "vl_version_of ''v5.2.0'' = ''v5_2''"
  by (simp add: vl_version_of_def)

text \<open>The resolver on an engine given as a string: the three outer branches.\<close>

lemma validate_str:
  "validate_normalize_engine env (PyStr e) format =
     (if normalize_engine e = ''vlconvert'' then
        if vl_convert env = None then
          Inl (ValueError
            ''The 'vl-convert' conversion engine requires the vl-convert-python package'')
        else if format = ''pdf'' then
          Inl (ValueError
            (''The 'vl-convert' conversion engine does not support the '' @ repr format
             @ '' format.'' @ [CHR 0x0A] @ ''Use the 'altair_saver' engine instead''))
        else Inr ''vlconvert''
      else if normalize_engine e = ''altairsaver'' then
        if altair_saver env = None then
          Inl (ValueError
            ''The 'altair_saver' conversion engine requires the altair_saver package'')
        else Inr ''altairsaver''
      else
        Inl (ValueError
          (''Invalid conversion engine '' @ repr e
           @ ''. Expected one of ('vl-convert', 'altair_saver')'')))"
  by (simp add: validate_normalize_engine_def normalized_engine_of_def repr_engine_def)

lemma with_engine_str:
  "spec_to_mimebundle_with_engine env spec format mode (kwargs(''engine'' \<mapsto> PyStr e)) r =
     (case validate_normalize_engine env (PyStr e) format of
        Inl err \<Rightarrow> (Inl err, r)
      | Inr normalized_engine \<Rightarrow>
          if normalized_engine = ''vlconvert'' then
            (case vl_convert env of
               None \<Rightarrow> (Inl (ImportError ''vl_convert''), r)
             | Some vlc \<Rightarrow>
                 with_scope (enable ''default'')
                   (with_scope disable_max_rows
                      (vlconvert_dispatch vlc (vl_version_of (SCHEMA_VERSION env))
                         spec format (kwargs(''engine'' := None)))) r)
          else if normalized_engine = ''altairsaver'' then
            (case altair_saver env of
               None \<Rightarrow> (Inl (ImportError ''altair_saver''), r)
             | Some saver \<Rightarrow> render saver spec format mode (kwargs(''engine'' := None)) r)
          else
            (Inl (ValueError
               (''Unexpected normalized_engine '' @ repr normalized_engine)), r))"
  by (simp add: spec_to_mimebundle_with_engine_def Let_def)

text \<open>The resolver answers \<open>vlconvert\<close> only when the package is there.\<close>

lemma validate_vlconvert_present:
  assumes "validate_normalize_engine env engine format = Inr ''vlconvert''"
  shows "vl_convert env \<noteq> None"
  using assms
  by (auto simp add: validate_normalize_engine_def split: sum.splits if_splits)

text \<open>The two nested scopes run the body in the overridden state and put the old one back.\<close>

lemma with_scope_nested:
  "with_scope (enable name) (with_scope disable_max_rows body) r
     = (fst (body (r\<lparr>active := name, max_rows := False\<rparr>)), r)"
  by (simp add: with_scope_def enable_def disable_max_rows_def split: prod.splits)

lemma with_engine_vlconvert:
  assumes "validate_normalize_engine env
             (case kwargs ''engine'' of None \<Rightarrow> PyNone | Some e \<Rightarrow> e) format = Inr ''vlconvert''"
  shows "\<exists>vlc. vl_convert env = Some vlc
           \<and> spec_to_mimebundle_with_engine env spec format mode kwargs r
             = (fst (vlconvert_dispatch vlc (vl_version_of (SCHEMA_VERSION env)) spec format
                       (kwargs(''engine'' := None))
                       (r\<lparr>active := ''default'', max_rows := False\<rparr>)), r)"
proof -
  from validate_vlconvert_present [OF assms]
  obtain vlc where vlc: "vl_convert env = Some vlc" by auto
  have "spec_to_mimebundle_with_engine env spec format mode kwargs r
      = with_scope (enable ''default'')
          (with_scope disable_max_rows
             (vlconvert_dispatch vlc (vl_version_of (SCHEMA_VERSION env)) spec format
                (kwargs(''engine'' := None)))) r"
    using assms vlc by (simp add: spec_to_mimebundle_with_engine_def Let_def)
  with vlc show ?thesis by (simp only: with_scope_nested) simp
qed

text \<open>What a successful call can return, path by path.\<close>

lemma wrap_Inr:
  assumes "wrap mime res = (Inr b, r')"
  shows "\<exists>payload. b = [mime \<mapsto> payload]"
  using assms by (auto simp add: wrap_def split: prod.splits sum.splits)

lemma vlconvert_dispatch_Inr:
  assumes "fst (vlconvert_dispatch vlc v spec format kwargs r) = Inr b"
  shows "\<exists>mime payload. b = [mime \<mapsto> payload]"
proof -
  obtain res r' where res: "vlconvert_dispatch vlc v spec format kwargs r = (res, r')"
    by (cases "vlconvert_dispatch vlc v spec format kwargs r")
  with assms have "vlconvert_dispatch vlc v spec format kwargs r = (Inr b, r')" by simp
  then show ?thesis
    unfolding vlconvert_dispatch_def
    by (auto split: if_splits) (blast dest: wrap_Inr)+
qed

lemma with_engine_Inr:
  assumes "spec_to_mimebundle_with_engine env spec format mode kwargs r = (Inr b, r')"
  shows "(\<exists>mime payload. b = [mime \<mapsto> payload])
       \<or> (\<exists>saver. altair_saver env = Some saver
             \<and> render saver spec format mode (kwargs(''engine'' := None)) r = (Inr b, r'))"
proof (cases "validate_normalize_engine env
             (case kwargs ''engine'' of None \<Rightarrow> PyNone | Some e \<Rightarrow> e) format")
  case (Inl e)
  with assms show ?thesis by (simp add: spec_to_mimebundle_with_engine_def Let_def)
next
  case (Inr eng)
  show ?thesis
  proof (cases "eng = ''vlconvert''")
    case True
    with Inr have v: "validate_normalize_engine env
             (case kwargs ''engine'' of None \<Rightarrow> PyNone | Some e \<Rightarrow> e) format = Inr ''vlconvert''"
      by simp
    from with_engine_vlconvert [of env kwargs format spec mode r] v assms
    obtain vlc where "fst (vlconvert_dispatch vlc (vl_version_of (SCHEMA_VERSION env)) spec format
                       (kwargs(''engine'' := None))
                       (r\<lparr>active := ''default'', max_rows := False\<rparr>)) = Inr b"
      by auto
    then show ?thesis using vlconvert_dispatch_Inr by blast
  next
    case False
    with Inr assms show ?thesis
      by (auto simp add: spec_to_mimebundle_with_engine_def Let_def split: if_splits option.splits)
  qed
qed

text \<open>One entry means one key with its payload.\<close>

lemma one_entry_iff: "one_entry b \<longleftrightarrow> (\<exists>mime payload. b = [mime \<mapsto> payload])"
proof
  assume "one_entry b"
  then have "card (dom b) = 1" by (simp add: one_entry_def)
  then obtain k where k: "dom b = {k}" by (rule card_1_singletonE)
  then obtain v where v: "b k = Some v" by auto
  have "b = [k \<mapsto> v]"
  proof
    fix x
    show "b x = [k \<mapsto> v] x"
    proof (cases "x = k")
      case True
      with v show ?thesis by simp
    next
      case False
      with k have "x \<notin> dom b" by simp
      with False show ?thesis by (simp add: domIff)
    qed
  qed
  then show "\<exists>mime payload. b = [mime \<mapsto> payload]" by blast
next
  assume "\<exists>mime payload. b = [mime \<mapsto> payload]"
  then show "one_entry b" by (auto simp add: one_entry_def)
qed

text \<open>
  A successful call returns a one-entry dictionary built here, or the result of
  \<open>altair_saver.render\<close> as it is.
\<close>

lemma spec_to_mimebundle_Inr:
  assumes "spec_to_mimebundle env spec format mode vega_version vegaembed_version
             vegalite_version kwargs r = (Inr b, r')"
  shows "(\<exists>mime payload. b = [mime \<mapsto> payload])
       \<or> (\<exists>saver. altair_saver env = Some saver
             \<and> format \<in> {''png'', ''svg'', ''pdf'', ''vega''}
             \<and> render saver spec format mode (kwargs(''engine'' := None)) r = (Inr b, r'))"
proof -
  have mode: "mode = Some ''vega'' \<or> mode = Some ''vega-lite''"
    using assms
    by (cases "mode \<noteq> Some ''vega'' \<and> mode \<noteq> Some ''vega-lite''")
       (auto simp add: spec_to_mimebundle_def)
  show ?thesis
  proof (cases "mode = Some ''vega'' \<and> format = ''vega''")
    case True
    with assms show ?thesis
      by (auto simp add: spec_to_mimebundle_def split: option.splits sum.splits)
  next
    case nv: False
    show ?thesis
    proof (cases "format \<in> {''png'', ''svg'', ''pdf'', ''vega''}")
      case True
      with nv mode assms
      have "spec_to_mimebundle_with_engine env spec format mode kwargs r = (Inr b, r')"
        by (auto simp add: spec_to_mimebundle_def)
      from with_engine_Inr [OF this] True show ?thesis by blast
    next
      case ne: False
      show ?thesis
      proof (cases "format = ''html''")
        case True
        with mode assms
        have "wrap ''text/html''
                (spec_to_html env spec mode vega_version vegaembed_version vegalite_version
                   kwargs r) = (Inr b, r')"
          by (auto simp add: spec_to_mimebundle_def)
        from wrap_Inr [OF this] show ?thesis by blast
      next
        case nh: False
        show ?thesis
        proof (cases "format = ''vega-lite''")
          case True
          with mode assms show ?thesis
            by (auto simp add: spec_to_mimebundle_def split: option.splits sum.splits) blast+
        next
          case False
          with nh ne nv mode assms show ?thesis
            by (auto simp add: spec_to_mimebundle_def split: if_splits)
        qed
      qed
    qed
  qed
qed

section \<open>The claims\<close>

subsection \<open>C1\<close>

text \<open>
  C1. With \<open>mode == "vega"\<close>, \<open>format == "vega"\<close> and a non-empty string \<open>vega_version\<close>,
  \<open>spec_to_mimebundle\<close> returns the one-entry dictionary whose key is
  \<open>application/vnd.vega.v<major>+json\<close>, \<open><major>\<close> being the first character of
  \<open>vega_version\<close>, and whose value is the spec.
\<close>

theorem vega_passthrough_bundle:
  assumes "vega_version = Some v" and "v \<noteq> []"
  shows "spec_to_mimebundle env spec ''vega'' (Some ''vega'') vega_version vegaembed_version
           vegalite_version kwargs r
         = (Inr [''application/vnd.vega.v'' @ [hd v] @ ''+json'' \<mapsto> spec], r)"
  using assms by (cases v) (simp_all add: spec_to_mimebundle_def first_char_def)

theorem vega_passthrough_bundle_witness:
  "spec_to_mimebundle env_no_engine example_spec ''vega'' (Some ''vega'') (Some ''5.20.0'') None
     None Map.empty example_registry
   = (Inr [''application/vnd.vega.v5+json'' \<mapsto> example_spec], example_registry)"
  using vega_passthrough_bundle [of "Some ''5.20.0''" "''5.20.0''" env_no_engine example_spec
      None None Map.empty example_registry]
  by simp

subsection \<open>C2\<close>

text \<open>
  C2. For every \<open>mode\<close> other than the strings \<open>"vega"\<close> and \<open>"vega-lite"\<close>, \<open>None\<close>
  included, \<open>spec_to_mimebundle\<close> raises \<open>ValueError\<close>, whatever the other arguments.
\<close>

theorem invalid_mode_rejected:
  assumes "mode \<noteq> Some ''vega''" and "mode \<noteq> Some ''vega-lite''"
  shows "spec_to_mimebundle env spec format mode vega_version vegaembed_version
           vegalite_version kwargs r
         = (Inl (ValueError (''mode must be either 'vega' or 'vega-lite'' @ [CHR 0x27])), r)"
  using assms by (simp add: spec_to_mimebundle_def)

theorem invalid_mode_rejected_witness:
  "spec_to_mimebundle env_no_engine example_spec ''json'' None None None None Map.empty
     example_registry
   = (Inl (ValueError (''mode must be either 'vega' or 'vega-lite'' @ [CHR 0x27])),
      example_registry)"
  using invalid_mode_rejected [of None env_no_engine example_spec "''json''" None None None
      Map.empty example_registry]
  by simp

subsection \<open>C3\<close>

text \<open>
  C3. Without an engine override the resolver picks \<open>vlconvert\<close> when vl-convert is
  installed and the format is not \<open>pdf\<close>; otherwise \<open>altairsaver\<close> when altair_saver is
  installed; otherwise it raises \<open>ValueError\<close>, whose message names the altair_saver
  package for \<open>pdf\<close> and both packages for any other format.
\<close>

theorem default_engine_resolution:
  "validate_normalize_engine env PyNone format =
     (if vl_convert env \<noteq> None \<and> format \<noteq> ''pdf'' then Inr ''vlconvert''
      else if altair_saver env \<noteq> None then Inr ''altairsaver''
      else if format = ''pdf'' then
        Inl (ValueError (''Saving charts in 'pdf' format requires the altair_saver package: ''
                         @ ''see http://github.com/altair-viz/altair_saver/''))
      else
        Inl (ValueError (''Saving charts in '' @ repr format
                         @ '' format requires the vl-convert-python or altair_saver package: ''
                         @ ''see http://github.com/altair-viz/altair_saver/'')))"
  by (simp add: validate_normalize_engine_def normalized_engine_of_def repr_pdf)

theorem default_engine_resolution_witness:
  "validate_normalize_engine env_vl_convert PyNone ''png'' = Inr ''vlconvert''
   \<and> validate_normalize_engine env_vl_convert PyNone ''pdf''
       = Inl (ValueError (''Saving charts in 'pdf' format requires the altair_saver package: ''
                          @ ''see http://github.com/altair-viz/altair_saver/''))
   \<and> validate_normalize_engine env_altair_saver PyNone ''png'' = Inr ''altairsaver''
   \<and> validate_normalize_engine env_no_engine PyNone ''png''
       = Inl (ValueError (''Saving charts in 'png' format requires the vl-convert-python ''
                          @ ''or altair_saver package: ''
                          @ ''see http://github.com/altair-viz/altair_saver/''))"
  using default_engine_resolution [of env_vl_convert "''png''"]
    default_engine_resolution [of env_vl_convert "''pdf''"]
    default_engine_resolution [of env_altair_saver "''png''"]
    default_engine_resolution [of env_no_engine "''png''"]
  by (simp add: env_vl_convert_def env_altair_saver_def env_no_engine_def
      repr_def repr_char_def printable_def Let_def)

subsection \<open>C4\<close>

text \<open>
  C4 says that \<open>pdf\<close> with an engine override that normalizes to \<open>vlconvert\<close> always
  fails with the message about the unsupported combination. The check for the package
  comes first: without vl-convert the message is the one about the missing package.
\<close>

theorem vlconvert_pdf_missing_package_counterexample:
  "normalize_engine ''vl-convert'' = ''vlconvert'' \<and>
   validate_normalize_engine env_no_engine (PyStr ''vl-convert'') ''pdf'' \<noteq>
     Inl (ValueError
       (''The 'vl-convert' conversion engine does not support the 'pdf' format.''
        @ [CHR 0x0A] @ ''Use the 'altair_saver' engine instead''))"
  by (simp add: validate_str normalize_engine_vl_convert env_no_engine_def)

text \<open>
  C4, as amended. With format \<open>pdf\<close> and an engine override that normalizes to
  \<open>vlconvert\<close>, resolution always raises \<open>ValueError\<close>: when vl-convert is installed the
  message names the unsupported format and engine and suggests altair_saver; when it is
  not installed the message names the missing vl-convert-python package.
\<close>

theorem vlconvert_pdf_rejected:
  assumes "normalize_engine e = ''vlconvert''"
  shows "validate_normalize_engine env (PyStr e) ''pdf'' =
     Inl (ValueError
       (if vl_convert env = None
        then ''The 'vl-convert' conversion engine requires the vl-convert-python package''
        else ''The 'vl-convert' conversion engine does not support the 'pdf' format.''
             @ [CHR 0x0A] @ ''Use the 'altair_saver' engine instead''))"
  using assms by (simp add: validate_str repr_pdf)

theorem vlconvert_pdf_rejected_witness:
  "validate_normalize_engine env_vl_convert (PyStr ''VL_Convert'') ''pdf'' =
     Inl (ValueError
       (''The 'vl-convert' conversion engine does not support the 'pdf' format.''
        @ [CHR 0x0A] @ ''Use the 'altair_saver' engine instead''))"
  using vlconvert_pdf_rejected [of "''VL_Convert''" env_vl_convert]
  by (simp add: normalize_engine_VL_Convert env_vl_convert_def)

subsection \<open>C5\<close>

text \<open>
  C5 says that \<open>mode == "vega"\<close> with \<open>format == "vega-lite"\<close> fails with \<open>ValueError\<close>
  like every other validation failure. The statement \<open>assert mode == "vega-lite"\<close> comes
  before the test that would raise \<open>ValueError("Cannot convert a vega spec to vegalite")\<close>,
  so the call raises \<open>AssertionError\<close>.
\<close>

theorem vega_to_vegalite_assertion:
  "spec_to_mimebundle env spec ''vega-lite'' (Some ''vega'') vega_version vegaembed_version
     vegalite_version kwargs r = (Inl AssertionError, r)"
  by (simp add: spec_to_mimebundle_def)

theorem vega_to_vegalite_assertion_witness:
  "\<not> is_ValueError (fst (spec_to_mimebundle env_no_engine example_spec ''vega-lite''
       (Some ''vega'') (Some ''5.20.0'') None (Some ''5.2.0'') Map.empty example_registry))"
  using vega_to_vegalite_assertion [of env_no_engine example_spec "Some ''5.20.0''" None
      "Some ''5.2.0''" Map.empty example_registry]
  by simp

subsection \<open>C6\<close>

text \<open>
  C6 says that an absent or empty version string makes the two passthrough paths raise
  \<open>ValueError\<close>. The guard is \<open>vega_version is None\<close>: the empty string passes it, and
  \<open>vega_version[0]\<close> raises \<open>IndexError\<close>.
\<close>

theorem empty_version_counterexample:
  "\<not> is_ValueError (fst (spec_to_mimebundle env_no_engine example_spec ''vega'' (Some ''vega'')
       (Some []) None None Map.empty example_registry))"
  by (simp add: spec_to_mimebundle_def first_char_def)

text \<open>
  C6, as amended. With \<open>mode == "vega"\<close>, \<open>format == "vega"\<close> and \<open>vega_version\<close> absent
  (\<open>None\<close>), and with \<open>mode == "vega-lite"\<close>, \<open>format == "vega-lite"\<close> and
  \<open>vegalite_version\<close> absent, \<open>spec_to_mimebundle\<close> raises \<open>ValueError\<close>.
\<close>

theorem missing_version_rejected:
  "spec_to_mimebundle env spec ''vega'' (Some ''vega'') None vegaembed_version
     vegalite_version kwargs r = (Inl (ValueError ''Must specify vega_version''), r)
   \<and> spec_to_mimebundle env spec ''vega-lite'' (Some ''vega-lite'') vega_version
     vegaembed_version None kwargs r = (Inl (ValueError ''Must specify vegalite_version''), r)"
  by (simp add: spec_to_mimebundle_def)

theorem missing_version_rejected_witness:
  "is_ValueError (fst (spec_to_mimebundle env_no_engine example_spec ''vega'' (Some ''vega'')
       None None None Map.empty example_registry))
   \<and> is_ValueError (fst (spec_to_mimebundle env_no_engine example_spec ''vega-lite''
       (Some ''vega-lite'') None None None Map.empty example_registry))"
  using missing_version_rejected [of env_no_engine example_spec None None Map.empty
      example_registry None]
  by simp

subsection \<open>C7\<close>

text \<open>
  C7 says that \<open>format == "json"\<close> returns \<open>{"application/json": spec}\<close> for every mode.
  The test of the mode comes first: with the default \<open>mode=None\<close> the call raises.
\<close>

theorem json_invalid_mode_counterexample:
  "fst (spec_to_mimebundle env_no_engine example_spec ''json'' None None None None Map.empty
     example_registry) \<noteq> Inr [''application/json'' \<mapsto> example_spec]"
  by (simp add: spec_to_mimebundle_def)

text \<open>
  C7, as amended. For every spec, every valid mode (\<open>"vega"\<close> or \<open>"vega-lite"\<close>) and every
  combination of version arguments, a call with \<open>format == "json"\<close> returns exactly
  \<open>{"application/json": spec}\<close>.
\<close>

theorem json_bundle_valid_mode:
  assumes "mode = Some ''vega'' \<or> mode = Some ''vega-lite''"
  shows "spec_to_mimebundle env spec ''json'' mode vega_version vegaembed_version
     vegalite_version kwargs r = (Inr [''application/json'' \<mapsto> spec], r)"
  using assms by (auto simp add: spec_to_mimebundle_def)

theorem json_bundle_valid_mode_witness:
  "spec_to_mimebundle env_no_engine example_spec ''json'' (Some ''vega'') None None None
     Map.empty example_registry
   = (Inr [''application/json'' \<mapsto> example_spec], example_registry)"
  using json_bundle_valid_mode [of "Some ''vega''" env_no_engine example_spec None None None
      Map.empty example_registry]
  by simp

subsection \<open>C8\<close>

text \<open>
  C8 says that two engine overrides with the same normal form behave identically. When
  the normal form is not an engine name, the error message quotes the override as the
  caller wrote it, so \<open>"X"\<close> and \<open>"x"\<close> raise different messages.
\<close>

theorem engine_name_message_counterexample:
  "normalize_engine ''X'' = normalize_engine ''x''
   \<and> validate_normalize_engine env_no_engine (PyStr ''X'') ''png''
       \<noteq> validate_normalize_engine env_no_engine (PyStr ''x'') ''png''"
  by (simp add: validate_str normalize_engine_X normalize_engine_x repr_def repr_char_def
      printable_def Let_def)

text \<open>
  C8, as amended. For two engine overrides with the same normal form: when that normal
  form is \<open>vlconvert\<close> or \<open>altairsaver\<close>, resolution and the whole call of
  \<open>_spec_to_mimebundle_with_engine\<close> give the same result or the same error; otherwise
  both raise \<open>ValueError\<close>, each with a message that quotes its own override.
\<close>

theorem engine_name_insensitive:
  assumes "normalize_engine e1 = normalize_engine e2"
  shows "(normalize_engine e1 \<in> {''vlconvert'', ''altairsaver''} \<longrightarrow>
            validate_normalize_engine env (PyStr e1) format
              = validate_normalize_engine env (PyStr e2) format
          \<and> spec_to_mimebundle_with_engine env spec format mode
                (kwargs(''engine'' \<mapsto> PyStr e1)) r
              = spec_to_mimebundle_with_engine env spec format mode
                (kwargs(''engine'' \<mapsto> PyStr e2)) r)
       \<and> (normalize_engine e1 \<notin> {''vlconvert'', ''altairsaver''} \<longrightarrow>
            (\<forall>e \<in> {e1, e2}.
               validate_normalize_engine env (PyStr e) format
                 = Inl (ValueError (''Invalid conversion engine '' @ repr e
                          @ ''. Expected one of ('vl-convert', 'altair_saver')''))
             \<and> spec_to_mimebundle_with_engine env spec format mode
                   (kwargs(''engine'' \<mapsto> PyStr e)) r
                 = (Inl (ValueError (''Invalid conversion engine '' @ repr e
                          @ ''. Expected one of ('vl-convert', 'altair_saver')'')), r)))"
proof -
  have v: "normalize_engine e1 \<in> {''vlconvert'', ''altairsaver''} \<Longrightarrow>
      validate_normalize_engine env (PyStr e1) format
        = validate_normalize_engine env (PyStr e2) format"
    using assms by (auto simp add: validate_str)
  have w: "normalize_engine e1 \<in> {''vlconvert'', ''altairsaver''} \<Longrightarrow>
      spec_to_mimebundle_with_engine env spec format mode (kwargs(''engine'' \<mapsto> PyStr e1)) r
        = spec_to_mimebundle_with_engine env spec format mode (kwargs(''engine'' \<mapsto> PyStr e2)) r"
    using v by (simp only: with_engine_str)
  have i: "normalize_engine e \<notin> {''vlconvert'', ''altairsaver''} \<Longrightarrow>
      validate_normalize_engine env (PyStr e) format
        = Inl (ValueError (''Invalid conversion engine '' @ repr e
                 @ ''. Expected one of ('vl-convert', 'altair_saver')''))" for e
    by (auto simp add: validate_str)
  have j: "normalize_engine e \<notin> {''vlconvert'', ''altairsaver''} \<Longrightarrow>
      spec_to_mimebundle_with_engine env spec format mode (kwargs(''engine'' \<mapsto> PyStr e)) r
        = (Inl (ValueError (''Invalid conversion engine '' @ repr e
                 @ ''. Expected one of ('vl-convert', 'altair_saver')'')), r)" for e
    using i [of e] by (simp only: with_engine_str) simp
  show ?thesis using v w i [of e1] i [of e2] j [of e1] j [of e2] assms by auto
qed

theorem engine_name_insensitive_witness:
  "spec_to_mimebundle_with_engine env_vl_convert example_spec ''svg'' (Some ''vega-lite'')
       [''engine'' \<mapsto> PyStr ''VL_Convert''] example_registry
     = spec_to_mimebundle_with_engine env_vl_convert example_spec ''svg'' (Some ''vega-lite'')
       [''engine'' \<mapsto> PyStr ''vl-convert''] example_registry
   \<and> validate_normalize_engine env_vl_convert (PyStr ''X'') ''svg''
     = Inl (ValueError
         ''Invalid conversion engine 'X'. Expected one of ('vl-convert', 'altair_saver')'')"
  using engine_name_insensitive [of "''VL_Convert''" "''vl-convert''" env_vl_convert "''svg''"
      example_spec "Some ''vega-lite''" Map.empty example_registry]
    engine_name_insensitive [of "''X''" "''x''" env_vl_convert "''svg''" example_spec
      "Some ''vega-lite''" Map.empty example_registry]
  by (simp add: normalize_engine_VL_Convert normalize_engine_vl_convert normalize_engine_X
      normalize_engine_x repr_def repr_char_def printable_def Let_def)

subsection \<open>C9\<close>

text \<open>
  C9. When the call is dispatched through vl-convert, the converter runs with the default
  data transformer active and row limiting disabled, and the registry is back in its prior
  state when the call is left, whether the converter returned or raised.
\<close>

theorem data_transformer_restored:
  assumes "validate_normalize_engine env
             (case kwargs ''engine'' of None \<Rightarrow> PyNone | Some e \<Rightarrow> e) format = Inr ''vlconvert''"
  shows "snd (spec_to_mimebundle_with_engine env spec format mode kwargs r) = r
       \<and> (\<exists>vlc. vl_convert env = Some vlc
            \<and> fst (spec_to_mimebundle_with_engine env spec format mode kwargs r)
              = fst (vlconvert_dispatch vlc (vl_version_of (SCHEMA_VERSION env)) spec format
                       (kwargs(''engine'' := None))
                       (r\<lparr>active := ''default'', max_rows := False\<rparr>)))"
  using with_engine_vlconvert [of env kwargs format spec mode r] assms by auto

theorem data_transformer_restored_witness:
  "spec_to_mimebundle_with_engine env_vl_convert example_spec ''svg'' (Some ''vega-lite'')
       Map.empty example_registry
     = (Inl (OtherError ''conversion failed''), example_registry)
   \<and> spec_to_mimebundle_with_engine env_vl_convert example_spec ''vega'' (Some ''vega-lite'')
       Map.empty example_registry
     = (Inr [''application/vnd.vega.v5+json'' \<mapsto> PyStr ''vega v5_2 default''],
        example_registry)"
proof -
  have v: "validate_normalize_engine env_vl_convert
             (case Map.empty ''engine'' of None \<Rightarrow> PyNone | Some e \<Rightarrow> e) format = Inr ''vlconvert''"
    if "format \<noteq> ''pdf''" for format
    using that
    by (simp add: validate_normalize_engine_def normalized_engine_of_def env_vl_convert_def)
  have svg: "''svg'' \<noteq> ''pdf''" and vega: "''vega'' \<noteq> ''pdf''" by simp_all
  from data_transformer_restored [OF v [OF svg], of example_spec "Some ''vega-lite''"
      example_registry]
    data_transformer_restored [OF v [OF vega], of example_spec "Some ''vega-lite''"
      example_registry]
  show ?thesis
    by (simp add: prod_eq_iff env_vl_convert_def vlconvert_dispatch_def example_vl_convert_def
        wrap_def vl_version_example)
qed

subsection \<open>C10\<close>

text \<open>
  C10. Every mimebundle returned by a successful call has exactly one entry, on every
  path: the dictionaries built in this module have one key, and the altair_saver path
  returns the result of \<open>altair_saver.render\<close>, which is a mimebundle.
\<close>

theorem mimebundle_single_entry:
  assumes "\<forall>saver. altair_saver env = Some saver \<longrightarrow> render_returns_mimebundle saver"
    and "spec_to_mimebundle env spec format mode vega_version vegaembed_version
           vegalite_version kwargs r = (Inr b, r')"
  shows "one_entry b"
proof -
  from spec_to_mimebundle_Inr [OF assms(2)]
  consider (built) mime payload where "b = [mime \<mapsto> payload]"
    | (saver) saver where "altair_saver env = Some saver"
        and "render saver spec format mode (kwargs(''engine'' := None)) r = (Inr b, r')"
    by blast
  then show ?thesis
  proof cases
    case built
    then show ?thesis by (simp add: one_entry_def)
  next
    case saver
    with assms(1) have "render_returns_mimebundle saver" by simp
    with saver(2) show ?thesis unfolding render_returns_mimebundle_def by blast
  qed
qed

theorem mimebundle_single_entry_witness:
  "render_returns_mimebundle example_altair_saver
   \<and> spec_to_mimebundle env_altair_saver example_spec ''pdf'' (Some ''vega-lite'') None None None
       Map.empty example_registry
     = (Inr [''application/pdf'' \<mapsto> example_spec], example_registry)
   \<and> one_entry [''application/pdf'' \<mapsto> example_spec]"
proof -
  have c: "render_returns_mimebundle example_altair_saver"
    by (auto simp add: render_returns_mimebundle_def example_altair_saver_def one_entry_def)
  then have h: "\<forall>saver. altair_saver env_altair_saver = Some saver
                  \<longrightarrow> render_returns_mimebundle saver"
    by (simp add: env_altair_saver_def)
  have call: "spec_to_mimebundle env_altair_saver example_spec ''pdf'' (Some ''vega-lite'') None
                None None Map.empty example_registry
              = (Inr [''application/pdf'' \<mapsto> example_spec], example_registry)"
    by (simp add: spec_to_mimebundle_def spec_to_mimebundle_with_engine_def
        validate_normalize_engine_def normalized_engine_of_def env_altair_saver_def
        example_altair_saver_def Let_def)
  from mimebundle_single_entry [OF h call] c call show ?thesis by simp
qed

end
